theory Spec2Isabelle
  imports Main
begin

section \<open>Data model: polars frames\<close>

text \<open>
  The repository works on polars frames. A frame is a list of named, typed columns of
  equal height; a cell is a value of the column's dtype or null (\<open>None\<close>). The type
  parameter \<open>'t\<close> is the timestamp type, \<open>'f\<close> the payload of a float cell (floats are
  carried, never computed on).
\<close>

datatype dtype = Utf8 | Int64 | Float64 | Datetime | Categorical

datatype ('t, 'f) cell = Str string | I64 int | F64 'f | Time 't | Cat string

record ('t, 'f) series =
  name :: string
  dtype :: dtype
  cells :: "('t, 'f) cell option list"

type_synonym ('t, 'f) frame = "('t, 'f) series list"

definition columns :: "('t, 'f) frame \<Rightarrow> string list" where
  "columns X = map name X"


text \<open>Python values as they occur in the keyword arguments of a forecaster.\<close>

datatype pyval = PyNone | PyBool bool | PyInt int | PyStr string

type_synonym kwargs = "string \<rightharpoonup> pyval"

section \<open>forecasting/linear.py\<close>

text \<open>
  \<open>_linear_model(**kwargs)\<close>, \<open>_lasso\<close>, \<open>_ridge\<close> and \<open>_elastic_net\<close> each return a
  closure \<open>regress\<close> that builds the scikit-learn estimator of its class from \<open>kwargs\<close>
  (plus fixed arguments such as \<open>copy_X=False\<close>) only when it is called. The closure is
  determined by the estimator class and the captured \<open>kwargs\<close>.
\<close>

datatype sk_estimator = LinearRegression | Lasso | Ridge | ElasticNet

datatype regress = Regress sk_estimator kwargs

definition linear_model_regress :: "kwargs \<Rightarrow> regress" where
  "linear_model_regress kw = Regress LinearRegression kw"

definition lasso_regress :: "kwargs \<Rightarrow> regress" where
  "lasso_regress kw = Regress Lasso kw"

definition ridge_regress :: "kwargs \<Rightarrow> regress" where
  "ridge_regress kw = Regress Ridge kw"

definition elastic_net_regress :: "kwargs \<Rightarrow> regress" where
  "elastic_net_regress kw = Regress ElasticNet kw"

text \<open>The attributes of a \<open>Forecaster\<close> object that \<open>_fit\<close> reads.\<close>

record ('l, 'h, 's) forecaster =
  fc_kwargs :: kwargs
  fc_lags :: 'l
  fc_max_horizons :: 'h
  fc_strategy :: 's

text \<open>
  The only exception \<open>_fit\<close> raises by itself. \<open>fit_autoreg\<close> (module
  \<open>functime.forecasting._ar\<close>) is a parameter \<open>fa\<close>; \<open>Inr r\<close> means that \<open>_fit\<close> reached
  the call and returned its outcome \<open>r\<close>, whatever that is.
\<close>

datatype fit_error = DummyVariableTrap

type_synonym ('t, 'f, 'y, 'l, 'h, 's, 'r) fit_autoreg =
  "regress \<Rightarrow> 'y \<Rightarrow> ('t, 'f) frame option \<Rightarrow> 'l \<Rightarrow> 'h \<Rightarrow> 's \<Rightarrow> 'r"

definition categorical_columns :: "('t, 'f) frame \<Rightarrow> string list" where
  \<comment> \<open>\<open>X.select(pl.col(pl.Categorical)).columns\<close>\<close>
  "categorical_columns X = columns (filter (\<lambda>s. dtype s = Categorical) X)"

definition linear_model_fit ::
  "('t, 'f, 'y, 'l, 'h, 's, 'r) fit_autoreg \<Rightarrow> ('l, 'h, 's) forecaster \<Rightarrow> 'y \<Rightarrow>
     ('t, 'f) frame option \<Rightarrow> fit_error + 'r" where
  "linear_model_fit fa self y X =
     (let kw = fc_kwargs self in
      if (case X of None \<Rightarrow> False | Some X' \<Rightarrow> length (categorical_columns X') > 0)
         \<and> kw ''fit_intercept'' = Some (PyBool True)
      then Inl DummyVariableTrap
      else Inr (fa (linear_model_regress kw) y X (fc_lags self) (fc_max_horizons self)
                  (fc_strategy self)))"

definition lasso_fit ::
  "('t, 'f, 'y, 'l, 'h, 's, 'r) fit_autoreg \<Rightarrow> ('l, 'h, 's) forecaster \<Rightarrow> 'y \<Rightarrow>
     ('t, 'f) frame option \<Rightarrow> fit_error + 'r" where
  "lasso_fit fa self y X =
     Inr (fa (lasso_regress (fc_kwargs self)) y X (fc_lags self) (fc_max_horizons self)
            (fc_strategy self))"

definition ridge_fit ::
  "('t, 'f, 'y, 'l, 'h, 's, 'r) fit_autoreg \<Rightarrow> ('l, 'h, 's) forecaster \<Rightarrow> 'y \<Rightarrow>
     ('t, 'f) frame option \<Rightarrow> fit_error + 'r" where
  "ridge_fit fa self y X =
     Inr (fa (ridge_regress (fc_kwargs self)) y X (fc_lags self) (fc_max_horizons self)
            (fc_strategy self))"

definition elastic_net_fit ::
  "('t, 'f, 'y, 'l, 'h, 's, 'r) fit_autoreg \<Rightarrow> ('l, 'h, 's) forecaster \<Rightarrow> 'y \<Rightarrow>
     ('t, 'f) frame option \<Rightarrow> fit_error + 'r" where
  "elastic_net_fit fa self y X =
     Inr (fa (elastic_net_regress (fc_kwargs self)) y X (fc_lags self)
            (fc_max_horizons self) (fc_strategy self))"

text \<open>
  The default of scikit-learn's \<open>LinearRegression(fit_intercept=True)\<close>: the estimator
  that the closure builds fits an intercept unless \<open>kwargs\<close> says otherwise.
\<close>

definition fits_intercept :: "regress \<Rightarrow> bool" where
  "fits_intercept r =
     (case r of Regress _ kw \<Rightarrow>
        (case kw ''fit_intercept'' of
           None \<Rightarrow> True
         | Some (PyBool b) \<Rightarrow> b
         | Some PyNone \<Rightarrow> False
         | Some (PyInt i) \<Rightarrow> i \<noteq> 0
         | Some (PyStr s) \<Rightarrow> s \<noteq> []))"

text \<open>A panel with one categorical exogenous column, used in the examples below.\<close>

definition X_cat :: "(int, int) frame" where
  "X_cat =
     [\<lparr>name = ''entity'', dtype = Utf8, cells = [Some (Str ''a''), Some (Str ''a'')]\<rparr>,
      \<lparr>name = ''time'', dtype = Datetime, cells = [Some (Time 0), Some (Time 1)]\<rparr>,
      \<lparr>name = ''color'', dtype = Categorical, cells = [Some (Cat ''red''), Some (Cat ''red'')]\<rparr>]"

definition default_linear_model :: "(nat, nat, string) forecaster" where
  \<comment> \<open>\<open>linear_model(lags=3, freq=...)\<close>: no keyword argument for the estimator\<close>
  "default_linear_model =
     \<lparr>fc_kwargs = Map.empty, fc_lags = 3, fc_max_horizons = 1, fc_strategy = ''recursive''\<rparr>"

definition explicit_linear_model :: "(nat, nat, string) forecaster" where
  \<comment> \<open>\<open>linear_model(lags=3, freq=..., fit_intercept=True)\<close>\<close>
  "explicit_linear_model =
     \<lparr>fc_kwargs = [''fit_intercept'' \<mapsto> PyBool True], fc_lags = 3, fc_max_horizons = 1,
      fc_strategy = ''recursive''\<rparr>"

definition fit_autoreg_echo ::
  "(int, int, unit, nat, nat, string, regress \<times> nat \<times> nat \<times> string) fit_autoreg"
  where
  \<comment> \<open>a stand-in for \<open>fit_autoreg\<close> in the examples: it returns what it was called with\<close>
  "fit_autoreg_echo r y X l h s = (r, l, h, s)"

section \<open>feature_extraction/calendar.py\<close>

datatype py_error =
  IndexError | ValueError | TypeError | AttributeError | NotImplementedError
  | SchemaError | DuplicateError | ColumnNotFoundError

subsection \<open>The polars operations the module calls\<close>

text \<open>
  \<open>LazyFrame.with_columns\<close>: every expression is evaluated on the frame as it was; a
  result whose name is already a column replaces that column in place, a new name is
  appended at the end, in the order of the expressions. Two expressions with the same
  output name are an error.
\<close>

fun with_column :: "('t, 'f) frame \<Rightarrow> ('t, 'f) series \<Rightarrow> ('t, 'f) frame" where
  "with_column [] c = [c]"
| "with_column (s # X) c = (if name s = name c then c # X else s # with_column X c)"

definition with_columns ::
  "('t, 'f) frame \<Rightarrow> ('t, 'f) series list \<Rightarrow> py_error + ('t, 'f) frame" where
  "with_columns X cs =
     (if distinct (map name cs) then Inr (foldl with_column X cs) else Inl DuplicateError)"

text \<open>Casting an integer to \<open>pl.Utf8\<close> writes it in decimal.\<close>

function string_of_nat :: "nat \<Rightarrow> string" where
  "string_of_nat n =
     (if n < 10 then [''0123456789'' ! n]
      else string_of_nat (n div 10) @ [''0123456789'' ! (n mod 10)])"
  by pat_completeness auto
termination
  by (relation "measure id") auto

declare string_of_nat.simps [simp del]

definition string_of_int :: "int \<Rightarrow> string" where
  "string_of_int i =
     (if i < 0 then CHR ''-'' # string_of_nat (nat (- i)) else string_of_nat (nat i))"

text \<open>
  The namespace \<open>Expr.dt\<close> is a parameter \<open>dt\<close> of the model: \<open>dt attr = Some f\<close> when
  \<open>getattr(time_col.dt, attr)()\<close> is an expression that maps a timestamp to the integer
  \<open>f t\<close>, and \<open>None\<close> when the \<open>getattr\<close> or the call raises.
\<close>

type_synonym 't dt_namespace = "string \<Rightarrow> ('t \<Rightarrow> int) option"

definition calendar_cell :: "('t \<Rightarrow> int) \<Rightarrow> ('t, 'f) cell option \<Rightarrow> ('t, 'f) cell option" where
  \<comment> \<open>\<open>f\<close> on one cell, then \<open>.cast(pl.Utf8).cast(pl.Categorical)\<close>; null stays null (a
     column of dtype Datetime holds no other cell)\<close>
  "calendar_cell f c =
     (case c of Some (Time t) \<Rightarrow> Some (Cat (string_of_int (f t))) | _ \<Rightarrow> None)"

definition calendar_column ::
  "('t, 'f) series \<Rightarrow> string \<Rightarrow> ('t \<Rightarrow> int) \<Rightarrow> ('t, 'f) series" where
  "calendar_column time_col attr f =
     \<lparr>name = attr, dtype = Categorical, cells = map (calendar_cell f) (cells time_col)\<rparr>"

fun calendar_exprs ::
  "'t dt_namespace \<Rightarrow> ('t, 'f) series \<Rightarrow> string list \<Rightarrow> py_error + ('t, 'f) series list" where
  "calendar_exprs dt time_col [] = Inr []"
| "calendar_exprs dt time_col (attr # attrs) =
     (case dt attr of
        None \<Rightarrow> Inl AttributeError
      | Some f \<Rightarrow>
          (case calendar_exprs dt time_col attrs of
             Inl e \<Rightarrow> Inl e
           | Inr cs \<Rightarrow> Inr (calendar_column time_col attr f # cs)))"

subsection \<open>add_calendar_effects\<close>

definition add_calendar_effects ::
  "'t dt_namespace \<Rightarrow> string list \<Rightarrow> ('t, 'f) frame \<Rightarrow> py_error + ('t, 'f) frame" where
  "add_calendar_effects dt attrs X =
     (if length X < 2 then Inl IndexError
      else
        let time_col = X ! 1 in
        (case calendar_exprs dt time_col attrs of
           Inl e \<Rightarrow> Inl e
         | Inr cs \<Rightarrow>
             if cs \<noteq> [] \<and> dtype time_col \<noteq> Datetime then Inl SchemaError
             else with_columns X cs))"

subsection \<open>A calendar for the examples\<close>


















subsection \<open>add_holiday_effects\<close>


text \<open>
  \<open>X.join(Y, how="left", on=key)\<close>: every row of \<open>X\<close>, in order, once for each row of \<open>Y\<close>
  with an equal key (a null key matches nothing), or once with nulls when there is none.
  The result has the columns of \<open>X\<close>, then those of \<open>Y\<close> but the key; a column of \<open>Y\<close>
  whose name \<open>X\<close> has too gets the suffix \<open>_right\<close>.
\<close>

definition matches :: "'a option \<Rightarrow> 'a option list \<Rightarrow> nat list" where
  "matches k rkeys =
     (case k of None \<Rightarrow> [] | Some _ \<Rightarrow> filter (\<lambda>j. rkeys ! j = k) [0..<length rkeys])"

definition join_pairs :: "'a option list \<Rightarrow> 'a option list \<Rightarrow> (nat \<times> nat option) list" where
  "join_pairs lkeys rkeys =
     concat (map (\<lambda>i. case matches (lkeys ! i) rkeys of
                          [] \<Rightarrow> [(i, None)]
                        | j # js \<Rightarrow> map (\<lambda>j'. (i, Some j')) (j # js))
                 [0..<length lkeys])"

definition take_left :: "(nat \<times> nat option) list \<Rightarrow> ('t, 'f) series \<Rightarrow> ('t, 'f) series" where
  "take_left ps s = s\<lparr>cells := map (\<lambda>(i, j). cells s ! i) ps\<rparr>"

definition take_right :: "(nat \<times> nat option) list \<Rightarrow> ('t, 'f) series \<Rightarrow> ('t, 'f) series" where
  "take_right ps s =
     s\<lparr>cells := map (\<lambda>(i, j). case j of None \<Rightarrow> None | Some j' \<Rightarrow> cells s ! j') ps\<rparr>"

definition find_column :: "string \<Rightarrow> ('t, 'f) frame \<Rightarrow> ('t, 'f) series option" where
  "find_column n X = find (\<lambda>s. name s = n) X"

definition right_name :: "('t, 'f) frame \<Rightarrow> string \<Rightarrow> string" where
  "right_name X n = (if n \<in> set (columns X) then n @ ''_right'' else n)"

definition join_left ::
  "('t, 'f) frame \<Rightarrow> ('t, 'f) frame \<Rightarrow> string \<Rightarrow> py_error + ('t, 'f) frame" where
  "join_left X Y key =
     (case find_column key X of
        None \<Rightarrow> Inl ColumnNotFoundError
      | Some l \<Rightarrow>
          (case find_column key Y of
             None \<Rightarrow> Inl ColumnNotFoundError
           | Some r \<Rightarrow>
               let ps = join_pairs (cells l) (cells r) in
               Inr (map (take_left ps) X
                    @ map (\<lambda>s. (take_right ps s)\<lparr>name := right_name X (name s)\<rparr>)
                        (filter (\<lambda>s. name s \<noteq> key) Y))))"

text \<open>
  The \<open>holidays\<close> package is a parameter: \<open>country_holidays code years = Some get\<close> when
  the package knows the country, \<open>get t\<close> being \<open>country.get(t)\<close>, the holiday's name or
  \<open>None\<close>; it is \<open>None\<close> when the constructor raises. \<open>year\<close> is the attribute \<open>.year\<close> of
  a Python timestamp.
\<close>

type_synonym 't country_holidays = "string \<Rightarrow> int list \<Rightarrow> ('t \<Rightarrow> string option) option"

definition time_of :: "('t, 'f) cell option \<Rightarrow> 't option" where
  "time_of c = (case c of Some (Time t) \<Rightarrow> Some t | _ \<Rightarrow> None)"

definition py_timestamps :: "('t, 'f) cell option list \<Rightarrow> py_error + 't list" where
  \<comment> \<open>the unique values as \<open>min\<close>, \<open>max\<close> and \<open>.year\<close> accept them: \<open>min([])\<close> is a
     ValueError, a null among several values a TypeError of the comparison, and a lone
     null or a value that is no timestamp has no attribute \<open>year\<close>\<close>
  "py_timestamps cs =
     (if cs = [] then Inl ValueError
      else if None \<in> set cs \<and> length cs > 1 then Inl TypeError
      else (case those (map time_of cs) of
              None \<Rightarrow> Inl AttributeError
            | Some ts \<Rightarrow> Inr ts))"

definition years_of :: "('t::linorder \<Rightarrow> int) \<Rightarrow> 't list \<Rightarrow> int list" where
  \<comment> \<open>\<open>range(min_ts.year, max_ts.year + 1)\<close>\<close>
  "years_of year ts = [year (Min (set ts)) .. year (Max (set ts))]"

fun countries_of ::
  "'t country_holidays \<Rightarrow> int list \<Rightarrow> string list \<Rightarrow> py_error + ('t \<Rightarrow> string option) list"
  where
  "countries_of ch years [] = Inr []"
| "countries_of ch years (code # codes) =
     (case ch code years of
        None \<Rightarrow> Inl NotImplementedError
      | Some get \<Rightarrow>
          (case countries_of ch years codes of
             Inl e \<Rightarrow> Inl e
           | Inr gets \<Rightarrow> Inr (get # gets)))"

definition to_lowercase :: "char \<Rightarrow> char" where
  \<comment> \<open>on ASCII letters; other bytes are left as they are\<close>
  "to_lowercase c =
     (let n = (of_char c :: nat) in if 65 \<le> n \<and> n \<le> 90 then char_of (n + 32) else c)"

definition clean_label :: "string \<Rightarrow> string" where
  \<comment> \<open>\<open>.str.to_lowercase().str.replace_all("'", "").str.replace_all("-", "")
     .str.replace_all(" ", "_")\<close>\<close>
  "clean_label l =
     map (\<lambda>c. if c = CHR '' '' then CHR ''_'' else c)
       (filter (\<lambda>c. c \<noteq> CHR ''-'') (filter (\<lambda>c. c \<noteq> CHR 0x27) (map to_lowercase l)))"

definition holiday_name :: "string \<Rightarrow> string" where
  "holiday_name code = ''holiday__'' @ code"

definition holiday_column ::
  "'t list \<Rightarrow> string \<Rightarrow> ('t \<Rightarrow> string option) \<Rightarrow> ('t, 'f) series" where
  "holiday_column ts code get =
     \<lparr>name = holiday_name code, dtype = Categorical,
      cells = map (\<lambda>t. map_option (\<lambda>l. Cat (clean_label l)) (get t)) ts\<rparr>"

definition concat_horizontal :: "('t, 'f) frame \<Rightarrow> py_error + ('t, 'f) frame" where
  \<comment> \<open>\<open>pl.concat\<close> of one-column frames, given as the list of their columns\<close>
  "concat_horizontal cs =
     (if cs = [] then Inl ValueError
      else if distinct (map name cs) then Inr cs else Inl DuplicateError)"

definition add_holiday_effects ::
  "'t country_holidays \<Rightarrow> ('t::linorder \<Rightarrow> int) \<Rightarrow> string list \<Rightarrow> ('t, 'f) frame \<Rightarrow>
     py_error + ('t, 'f) frame" where
  "add_holiday_effects country_holidays year country_codes X =
     (if length X < 2 then Inl IndexError
      else
        let time_col = X ! 1;
            timestamps = remdups (cells time_col) in
        (case py_timestamps timestamps of
           Inl e \<Rightarrow> Inl e
         | Inr ts \<Rightarrow>
             (case countries_of country_holidays (years_of year ts) country_codes of
                Inl e \<Rightarrow> Inl e
              | Inr countries \<Rightarrow>
                  (case concat_horizontal
                          (map (\<lambda>(code, country). holiday_column ts code country)
                             (zip country_codes countries)) of
                     Inl e \<Rightarrow> Inl e
                   | Inr labels \<Rightarrow>
                       (case with_columns labels
                               [\<lparr>name = name time_col, dtype = dtype time_col,
                                 cells = timestamps\<rparr>] of
                          Inl e \<Rightarrow> Inl e
                        | Inr holidays \<Rightarrow> join_left X holidays (name time_col))))))"



subsection \<open>make_future_calendar_effects\<close>

text \<open>
  \<open>idx.groupby(entity_col).agg(pl.col(time_col).max().alias("low"))\<close>: one row per
  entity with the greatest of its timestamps (nulls are skipped; a group of nulls only
  has the maximum null). polars leaves the order of the groups open; here they come in
  the order of \<open>remdups\<close>.
\<close>

definition entity_times :: "('t, 'f) frame \<Rightarrow> ('t, 'f) cell option \<Rightarrow> ('t, 'f) cell option list"
  where
  "entity_times idx e =
     map snd (filter (\<lambda>(e', t). e' = e) (zip (cells (idx ! 0)) (cells (idx ! 1))))"

definition observed :: "('t, 'f) frame \<Rightarrow> ('t, 'f) cell option \<Rightarrow> 't list" where
  "observed idx e = List.map_filter time_of (entity_times idx e)"

definition max_time :: "'t::linorder list \<Rightarrow> 't option" where
  "max_time ts = (case ts of [] \<Rightarrow> None | t # ts' \<Rightarrow> Some (fold max ts' t))"

definition cutoffs :: "('t::linorder, 'f) frame \<Rightarrow> (('t, 'f) cell option \<times> 't option) list" where
  "cutoffs idx = map (\<lambda>e. (e, max_time (observed idx e))) (remdups (cells (idx ! 0)))"

text \<open>
  Modelled from the spec: \<open>functime.ranges.make_future_ranges\<close> is imported by
  \<open>calendar.py\<close> but is not among the sources. The spec (4.4) has it return, for each
  entity, exactly \<open>fh\<close> future timestamps starting one step after the last observed
  timestamp, spaced by the frequency, in increasing order, the step arithmetic being
  delegated to a frequency-aware calendar function: here \<open>step\<close>, which moves a
  timestamp by one period of \<open>freq\<close>. An entity with no timestamp gets an empty list.
\<close>

definition future_range :: "('t \<Rightarrow> 't) \<Rightarrow> int \<Rightarrow> 't \<Rightarrow> 't list" where
  "future_range step fh low = map (\<lambda>i. (step ^^ nat i) low) [1..fh]"

definition make_future_ranges ::
  "('t \<Rightarrow> 't) \<Rightarrow> int \<Rightarrow> ('e \<times> 't option) list \<Rightarrow> ('e \<times> 't list) list" where
  "make_future_ranges step fh cs =
     map (\<lambda>(e, low). (e, case low of None \<Rightarrow> [] | Some l \<Rightarrow> future_range step fh l)) cs"

definition explode :: "('e \<times> 't list) list \<Rightarrow> ('e \<times> 't option) list" where
  \<comment> \<open>\<open>.explode(time_col)\<close>: one row per list element, one row with a null for an empty
     list\<close>
  "explode rs =
     concat (map (\<lambda>(e, ts). if ts = [] then [(e, None)] else map (\<lambda>t. (e, Some t)) ts) rs)"

definition future_idx :: "('t \<Rightarrow> 't) \<Rightarrow> ('t::linorder, 'f) frame \<Rightarrow> int \<Rightarrow> ('t, 'f) frame" where
  "future_idx step idx fh =
     (let rows = explode (make_future_ranges step fh (cutoffs idx)) in
      [\<lparr>name = name (idx ! 0), dtype = dtype (idx ! 0), cells = map fst rows\<rparr>,
       \<lparr>name = name (idx ! 1), dtype = dtype (idx ! 1),
        cells = map (\<lambda>(e, t). map_option Time t) rows\<rparr>])"

definition make_future_calendar_effects ::
  "'t dt_namespace \<Rightarrow> ('t \<Rightarrow> 't) \<Rightarrow> ('t::linorder, 'f) frame \<Rightarrow> string list \<Rightarrow> int \<Rightarrow>
     py_error + ('t, 'f) frame" where
  "make_future_calendar_effects dt step idx attrs fh =
     (if length idx < 2 then Inl ValueError
      else if name (idx ! 0) = ''low'' then Inl DuplicateError
      else add_calendar_effects dt attrs (future_idx step idx fh))"



section \<open>preprocessing: lag and rolling-window features\<close>

text \<open>
  A panel groups the observations by entity: for each entity its rows (timestamp, value)
  in time order. \<open>functime.preprocessing\<close> is not among the sources; its tests are, with
  the pandas reference implementations \<open>pd_lag\<close> and \<open>pd_roll\<close> that the results of \<open>lag\<close>
  and \<open>roll\<close> are compared with.
\<close>

type_synonym ('e, 't, 'a) panel = "('e \<times> ('t \<times> 'a) list) list"

subsection \<open>The reference implementations of tests/test_preprocessing.py\<close>

definition shift :: "nat \<Rightarrow> 'a option list \<Rightarrow> 'a option list" where
  \<comment> \<open>pandas \<open>shift(k)\<close> on the rows of one group: the value of the row \<open>k\<close> rows before,
     NaN for the first \<open>k\<close> rows\<close>
  "shift k xs = replicate (min k (length xs)) None @ take (length xs - k) xs"

definition pd_lag_entity :: "nat list \<Rightarrow> ('t \<times> 'a) list \<Rightarrow> ('t \<times> 'a option list) list" where
  \<comment> \<open>\<open>pd_lag\<close> on one group of \<open>X.groupby(level=0)\<close>: one shifted column per lag\<close>
  "pd_lag_entity lags ys =
     (let X_lags = map (\<lambda>k. shift k (map (\<lambda>y. Some (snd y)) ys)) lags
      in map (\<lambda>i. (fst (ys ! i), map (\<lambda>X_lag. X_lag ! i) X_lags)) [0..<length ys])"

definition dropna :: "('t \<times> 'a option list) list \<Rightarrow> ('t \<times> 'a list) list" where
  \<comment> \<open>\<open>df.dropna()\<close>: the rows without a NaN\<close>
  "dropna rows = List.map_filter (\<lambda>(t, fs). map_option (Pair t) (those fs)) rows"

definition test_lag_expected :: "nat list \<Rightarrow> ('e, 't, 'a) panel \<Rightarrow> ('e \<times> ('t \<times> 'a list) list) list"
  where
  \<comment> \<open>\<open>expected\<close> of \<open>test_lag\<close>: \<open>pd_lag(pd_X, lags).dropna()\<close>, the lag columns\<close>
  "test_lag_expected lags X = map (\<lambda>(e, ys). (e, dropna (pd_lag_entity lags ys))) X"




subsection \<open>lag and roll\<close>

text \<open>
  Modelled from the spec: \<open>functime.preprocessing.lag\<close> is missing from the sources. The
  spec (4.3): for each entity and each timestamp t a feature row with the lag features
  \<open>y[t-k]\<close> for every requested k; rows where any required lag falls before the entity's
  first observation are dropped rather than filled. Offsets count observations.
\<close>

definition lag_entity :: "nat list \<Rightarrow> ('t \<times> 'a) list \<Rightarrow> ('t \<times> 'a list) list" where
  "lag_entity lags ys =
     map (\<lambda>i. (fst (ys ! i), map (\<lambda>k. snd (ys ! (i - k))) lags))
       (filter (\<lambda>i. list_all (\<lambda>k. k \<le> i) lags) [0..<length ys])"

definition lag :: "nat list \<Rightarrow> ('e, 't, 'a) panel \<Rightarrow> ('e \<times> ('t \<times> 'a list) list) list" where
  "lag lags X = map (\<lambda>(e, ys). (e, lag_entity lags ys)) X"




text \<open>
  The panel of the examples: entities a and b with an integer time index, and two
  statistics on integers.
\<close>

definition panel_ab :: "(string, int, int) panel" where
  "panel_ab =
     [(''a'', [(0, 10), (1, 11), (2, 12), (3, 13)]),
      (''b'', [(0, 20), (1, 21), (2, 22)])]"



section \<open>The dummy variable trap\<close>

lemma categorical_columns_X_cat: "categorical_columns X_cat = [''color'']"
  by (simp add: categorical_columns_def columns_def X_cat_def)

lemma linear_model_fit_raises_iff:
  "linear_model_fit fa self y X = Inl DummyVariableTrap \<longleftrightarrow>
     (\<exists>X'. X = Some X' \<and> categorical_columns X' \<noteq> [])
       \<and> fc_kwargs self ''fit_intercept'' = Some (PyBool True)"
  by (cases X) (auto simp: linear_model_fit_def Let_def)

text \<open>
  C1. The claim: \<open>linear_model._fit\<close> raises whenever X has a categorical column and
  intercept fitting is on, also when it is on by default. On the code: with no
  \<open>fit_intercept\<close> keyword the check \<open>kwargs.get("fit_intercept") is True\<close> is false, so
  for a panel with a categorical column \<open>_fit\<close> does not raise; it calls \<open>fit_autoreg\<close>
  with a \<open>LinearRegression\<close> closure that fits an intercept.
\<close>

theorem linear_model_fit_default_intercept_not_checked:
  "categorical_columns X_cat \<noteq> []
   \<and> fits_intercept (linear_model_regress (fc_kwargs default_linear_model))
   \<and> linear_model_fit fit_autoreg_echo default_linear_model () (Some X_cat)
       = Inr (Regress LinearRegression Map.empty, 3, 1, ''recursive'')"
  by (simp add: categorical_columns_X_cat linear_model_fit_def default_linear_model_def
      linear_model_regress_def fits_intercept_def fit_autoreg_echo_def)

text \<open>
  C9. Only the plain \<open>linear_model\<close> performs the dummy-variable-trap check: for a panel
  with a categorical column, \<open>linear_model._fit\<close> raises exactly when \<open>fit_intercept=True\<close>
  was passed, while the \<open>_fit\<close> methods of \<open>lasso\<close>, \<open>ridge\<close> and \<open>elastic_net\<close> raise
  nothing, whatever the keyword arguments, and return what \<open>fit_autoreg\<close> returns for
  their closure.
\<close>

theorem only_linear_model_checks_dummy_variable_trap:
  assumes "categorical_columns X \<noteq> []"
  shows "(linear_model_fit fa self y (Some X) = Inl DummyVariableTrap
            \<longleftrightarrow> fc_kwargs self ''fit_intercept'' = Some (PyBool True))
    \<and> lasso_fit fa self y (Some X)
        = Inr (fa (Regress Lasso (fc_kwargs self)) y (Some X) (fc_lags self)
                 (fc_max_horizons self) (fc_strategy self))
    \<and> ridge_fit fa self y (Some X)
        = Inr (fa (Regress Ridge (fc_kwargs self)) y (Some X) (fc_lags self)
                 (fc_max_horizons self) (fc_strategy self))
    \<and> elastic_net_fit fa self y (Some X)
        = Inr (fa (Regress ElasticNet (fc_kwargs self)) y (Some X) (fc_lags self)
                 (fc_max_horizons self) (fc_strategy self))"
  using assms
  by (simp add: linear_model_fit_raises_iff lasso_fit_def ridge_fit_def elastic_net_fit_def
      lasso_regress_def ridge_regress_def elastic_net_regress_def)

theorem only_linear_model_checks_dummy_variable_trap_witness:
  "categorical_columns X_cat \<noteq> []
   \<and> fc_kwargs explicit_linear_model ''fit_intercept'' = Some (PyBool True)
   \<and> linear_model_fit fit_autoreg_echo explicit_linear_model () (Some X_cat)
       = Inl DummyVariableTrap
   \<and> lasso_fit fit_autoreg_echo explicit_linear_model () (Some X_cat)
       = Inr (Regress Lasso [''fit_intercept'' \<mapsto> PyBool True], 3, 1, ''recursive'')
   \<and> ridge_fit fit_autoreg_echo explicit_linear_model () (Some X_cat)
       = Inr (Regress Ridge [''fit_intercept'' \<mapsto> PyBool True], 3, 1, ''recursive'')
   \<and> elastic_net_fit fit_autoreg_echo explicit_linear_model () (Some X_cat)
       = Inr (Regress ElasticNet [''fit_intercept'' \<mapsto> PyBool True], 3, 1, ''recursive'')"
proof -
  have c: "categorical_columns X_cat \<noteq> []"
    by (simp add: categorical_columns_X_cat)
  have k: "fc_kwargs explicit_linear_model ''fit_intercept'' = Some (PyBool True)"
    by (simp add: explicit_linear_model_def)
  show ?thesis
    using c k
      only_linear_model_checks_dummy_variable_trap
        [OF c, of fit_autoreg_echo explicit_linear_model "()"]
    by (simp add: fit_autoreg_echo_def explicit_linear_model_def)
qed

section \<open>Calendar effects\<close>

lemma with_column_append:
  "name c \<notin> set (columns X) \<Longrightarrow> with_column X c = X @ [c]"
  by (induction X) (auto simp: columns_def)

lemma foldl_with_column_append:
  "distinct (map name cs) \<Longrightarrow> set (map name cs) \<inter> set (columns X) = {} \<Longrightarrow>
   foldl with_column X cs = X @ cs"
proof (induction cs arbitrary: X)
  case Nil
  then show ?case by simp
next
  case (Cons c cs)
  have c: "with_column X c = X @ [c]"
    using Cons.prems by (intro with_column_append) auto
  have "foldl with_column (X @ [c]) cs = (X @ [c]) @ cs"
    using Cons.prems by (intro Cons.IH) (auto simp: columns_def)
  with c show ?case by simp
qed

lemma calendar_exprs_defined:
  "\<forall>a \<in> set attrs. dt a \<noteq> None \<Longrightarrow>
   calendar_exprs dt tc attrs = Inr (map (\<lambda>a. calendar_column tc a (the (dt a))) attrs)"
  by (induction attrs) auto





section \<open>Holiday effects\<close>







lemma countries_of_Inr:
  "countries_of ch years codes = Inr gets \<Longrightarrow>
   length gets = length codes \<and> (\<forall>i<length codes. ch (codes ! i) years = Some (gets ! i))"
proof (induction codes arbitrary: gets)
  case Nil
  then show ?case by simp
next
  case (Cons c codes)
  then show ?case
    by (auto split: option.splits sum.splits simp: nth_Cons split: nat.splits)
qed



lemma holiday_labels_names:
  "length gets = length codes \<Longrightarrow>
   map name (map (\<lambda>(code, country). holiday_column ts code country) (zip codes gets))
     = map holiday_name codes"
proof -
  assume l: "length gets = length codes"
  have "map name (map (\<lambda>(code, country). holiday_column ts code country) (zip codes gets))
          = map holiday_name (map fst (zip codes gets))"
    by (simp add: holiday_column_def split_def comp_def)
  with l show ?thesis by simp
qed



lemma those_map_defined:
  "list_all (\<lambda>x. f x \<noteq> None) xs \<Longrightarrow> \<exists>ys. those (map f xs) = Some ys"
  by (induction xs) auto

lemma countries_of_defined:
  "list_all (\<lambda>c. ch c years \<noteq> None) codes \<Longrightarrow> \<exists>gets. countries_of ch years codes = Inr gets"
  by (induction codes) auto

lemma with_column_has_name: "\<exists>s \<in> set (with_column L c). name s = name c"
  by (induction L) auto

lemma find_column_defined:
  "\<exists>s \<in> set X. name s = n \<Longrightarrow> \<exists>s. find_column n X = Some s"
  by (cases "find_column n X") (auto simp: find_column_def find_None_iff)

lemma join_left_defined:
  assumes "\<exists>s \<in> set X. name s = key" and "\<exists>s \<in> set Y. name s = key"
  shows "\<exists>X'. join_left X Y key = Inr X'"
proof -
  from find_column_defined [OF assms(1)] obtain l where l: "find_column key X = Some l" ..
  from find_column_defined [OF assms(2)] obtain r where r: "find_column key Y = Some r" ..
  show ?thesis
    unfolding join_left_def l r by (simp add: Let_def)
qed

text \<open>
  The transform returns for every panel with at least two columns whose time column is
  not empty and holds timestamps only, and every non-empty list of distinct country codes
  that the \<open>holidays\<close> package knows.
\<close>

lemma add_holiday_effects_returns:
  fixes X :: "('t::linorder, 'f) frame"
  assumes len: "2 \<le> length X"
    and ne: "cells (X ! 1) \<noteq> []"
    and times: "list_all (\<lambda>c. time_of c \<noteq> None) (cells (X ! 1))"
    and codes: "codes \<noteq> []" "distinct codes"
    and known: "\<And>years. list_all (\<lambda>c. ch c years \<noteq> None) codes"
  shows "\<exists>X'. add_holiday_effects ch year codes X = Inr X'"
proof -
  define tc where "tc = X ! 1"
  let ?stamps = "remdups (cells tc)"
  have "list_all (\<lambda>c. time_of c \<noteq> None) ?stamps"
    using times by (simp add: tc_def list_all_iff)
  from those_map_defined [OF this] obtain ts where th: "those (map time_of ?stamps) = Some ts" ..
  have nonnull: "None \<notin> set ?stamps"
    using times by (auto simp: tc_def list_all_iff time_of_def)
  have ts: "py_timestamps ?stamps = Inr ts"
    using ne nonnull th by (simp add: py_timestamps_def tc_def)
  from countries_of_defined [OF known] obtain gets
    where gets: "countries_of ch (years_of year ts) codes = Inr gets" ..
  from countries_of_Inr [OF gets] have lg: "length gets = length codes" by simp
  let ?labels = "map (\<lambda>(code, country). holiday_column ts code country) (zip codes gets)
                   :: ('t, 'f) frame"
  let ?tser = "\<lparr>name = name tc, dtype = dtype tc, cells = ?stamps\<rparr> :: ('t, 'f) series"
  have names: "map name ?labels = map holiday_name codes"
    by (rule holiday_labels_names [OF lg])
  have "distinct (map holiday_name codes)"
    using codes(2) by (simp add: distinct_map inj_on_def holiday_name_def)
  then have d: "distinct (map name ?labels)"
    unfolding names .
  have lne: "?labels \<noteq> []"
    using codes(1) lg by (cases codes; cases gets) auto
  have ch: "concat_horizontal ?labels = Inr ?labels"
    unfolding concat_horizontal_def using d lne by (simp only: if_False if_True)
  have wc: "with_columns ?labels [?tser] = Inr (with_column ?labels ?tser)"
    by (simp add: with_columns_def)
  have inX: "\<exists>s \<in> set X. name s = name tc"
    using len by (auto simp: tc_def intro!: bexI [of _ "X ! 1"])
  have inY: "\<exists>s \<in> set (with_column ?labels ?tser). name s = name tc"
    using with_column_has_name [of ?labels ?tser] by simp
  from join_left_defined [OF inX inY] obtain X'
    where j: "join_left X (with_column ?labels ?tser) (name tc) = Inr X'" ..
  have "add_holiday_effects ch year codes X = Inr X'"
    unfolding add_holiday_effects_def Let_def tc_def [symmetric]
    using len by (simp add: ts gets ch wc j)
  then show ?thesis ..
qed





section \<open>The future index\<close>


lemma map_of_graph:
  "e \<in> set ks \<Longrightarrow> map_of (map (\<lambda>k. (k, f k)) ks) e = Some (f e)"
  by (induction ks) auto










text \<open>
  \<open>make_future_calendar_effects\<close> returns the future index with the calendar columns
  appended, when the attributes are distinct attributes of the \<open>dt\<close> namespace other than
  the names of the entity and time columns.
\<close>

lemma make_future_calendar_effects_index:
  fixes idx :: "('t::linorder, 'f) frame"
  assumes len: "2 \<le> length idx" and low: "name (idx ! 0) \<noteq> ''low''"
    and dt: "dtype (idx ! 1) = Datetime"
    and attrs: "distinct attrs" "set attrs \<inter> {name (idx ! 0), name (idx ! 1)} = {}"
      "\<forall>a \<in> set attrs. dt a \<noteq> None"
  shows "\<exists>cs. make_future_calendar_effects dt step idx attrs fh
               = Inr (future_idx step idx fh @ cs)
           \<and> map name cs = attrs"
proof -
  define F where "F = future_idx step idx fh"
  have F: "length F = 2" "dtype (F ! 1) = Datetime" "columns F = [name (idx ! 0), name (idx ! 1)]"
    using dt by (simp_all add: F_def future_idx_def Let_def columns_def)
  let ?cs = "map (\<lambda>a. calendar_column (F ! 1) a (the (dt a))) attrs"
  have n: "map name ?cs = attrs"
    by (induction attrs) (auto simp: calendar_column_def)
  have "foldl with_column F ?cs = F @ ?cs"
    using attrs(1,2) by (intro foldl_with_column_append) (simp_all only: n F(3), simp_all)
  then have w: "with_columns F ?cs = Inr (F @ ?cs)"
    unfolding with_columns_def n using attrs(1) by simp
  have "add_calendar_effects dt attrs F = Inr (F @ ?cs)"
    unfolding add_calendar_effects_def Let_def calendar_exprs_defined [OF attrs(3)]
    using F(1,2) w by simp
  then have "make_future_calendar_effects dt step idx attrs fh = Inr (F @ ?cs)"
    using len low by (simp add: make_future_calendar_effects_def F_def)
  with n show ?thesis
    unfolding F_def by blast
qed




section \<open>Lag features\<close>

lemma shift_nth:
  "i < length xs \<Longrightarrow> shift k xs ! i = (if i < k then None else xs ! (i - k))"
  by (auto simp: shift_def nth_append min_def)

lemma those_map_if:
  "those (map (\<lambda>k. if P k then None else Some (f k)) ks)
     = (if list_all (\<lambda>k. \<not> P k) ks then Some (map f ks) else None)"
  by (induction ks) auto

lemma map_filter_map_if:
  "(\<And>x. x \<in> set xs \<Longrightarrow> g (h x) = (if P x then Some (r x) else None)) \<Longrightarrow>
   List.map_filter g (map h xs) = map r (filter P xs)"
  by (induction xs) (auto simp: List.map_filter_simps)

lemma pd_lag_row:
  assumes "i < length ys"
  shows "map (\<lambda>X_lag. X_lag ! i) (map (\<lambda>k. shift k (map (\<lambda>y. Some (snd y)) ys)) lags)
           = map (\<lambda>k. if i < k then None else Some (snd (ys ! (i - k)))) lags"
  using assms by (auto simp: shift_nth)

lemma dropna_pd_lag_entity: "dropna (pd_lag_entity lags ys) = lag_entity lags ys"
proof -
  have row: "(\<lambda>(t, fs). map_option (Pair t) (those fs))
               (fst (ys ! i), map (\<lambda>X_lag. X_lag ! i)
                  (map (\<lambda>k. shift k (map (\<lambda>y. Some (snd y)) ys)) lags))
           = (if list_all (\<lambda>k. k \<le> i) lags
              then Some (fst (ys ! i), map (\<lambda>k. snd (ys ! (i - k))) lags) else None)"
    if "i < length ys" for i
    unfolding pd_lag_row [OF that] by (simp add: those_map_if not_less)
  show ?thesis
    unfolding dropna_def pd_lag_entity_def lag_entity_def Let_def
  proof (rule map_filter_map_if)
    fix i assume "i \<in> set [0..<length ys]"
    then have "i < length ys" by simp
    then show "(\<lambda>(t, fs). map_option (Pair t) (those fs))
               (fst (ys ! i), map (\<lambda>X_lag. X_lag ! i)
                  (map (\<lambda>k. shift k (map (\<lambda>y. Some (snd y)) ys)) lags))
           = (if list_all (\<lambda>k. k \<le> i) lags
              then Some (fst (ys ! i), map (\<lambda>k. snd (ys ! (i - k))) lags) else None)"
      by (rule row)
  qed
qed

lemma lag_eq_test_lag_expected: "lag lags X = test_lag_expected lags X"
  by (simp add: lag_def test_lag_expected_def dropna_pd_lag_entity)

lemma lag_entity_rows:
  "set (lag_entity lags ys)
     = {(fst (ys ! i), map (\<lambda>k. snd (ys ! (i - k))) lags) | i.
          i < length ys \<and> list_all (\<lambda>k. k \<le> i) lags}"
  by (auto simp: lag_entity_def)

text \<open>
  C3. For every entity of the panel, every row that \<open>lag\<close> emits stands for one of the
  entity's timestamps t, and its feature for each requested offset k is the entity's raw
  value k observations before t; a timestamp for which some requested offset reaches
  before the entity's first observation has no row at all (nothing is filled in); every
  other timestamp has its row. The result is the frame \<open>test_lag\<close> expects.
\<close>

theorem lag_features:
  assumes d: "distinct (map fst ys)" and m: "(e, ys) \<in> set X"
  shows "(e, lag_entity lags ys) \<in> set (lag lags X)
    \<and> lag lags X = test_lag_expected lags X
    \<and> (\<forall>row \<in> set (lag_entity lags ys).
          \<exists>i<length ys. list_all (\<lambda>k. k \<le> i) lags \<and> fst row = fst (ys ! i)
            \<and> snd row = map (\<lambda>k. snd (ys ! (i - k))) lags)
    \<and> (\<forall>i<length ys.
          if list_all (\<lambda>k. k \<le> i) lags
          then (fst (ys ! i), map (\<lambda>k. snd (ys ! (i - k))) lags) \<in> set (lag_entity lags ys)
          else fst (ys ! i) \<notin> fst ` set (lag_entity lags ys))"
proof (intro conjI ballI allI impI)
  show "(e, lag_entity lags ys) \<in> set (lag lags X)"
    using m by (force simp: lag_def)
  show "lag lags X = test_lag_expected lags X"
    by (rule lag_eq_test_lag_expected)
next
  fix row assume "row \<in> set (lag_entity lags ys)"
  then show "\<exists>i<length ys. list_all (\<lambda>k. k \<le> i) lags \<and> fst row = fst (ys ! i)
            \<and> snd row = map (\<lambda>k. snd (ys ! (i - k))) lags"
    unfolding lag_entity_rows by auto
next
  fix i assume i: "i < length ys"
  show "if list_all (\<lambda>k. k \<le> i) lags
          then (fst (ys ! i), map (\<lambda>k. snd (ys ! (i - k))) lags) \<in> set (lag_entity lags ys)
          else fst (ys ! i) \<notin> fst ` set (lag_entity lags ys)"
  proof (cases "list_all (\<lambda>k. k \<le> i) lags")
    case True
    with i show ?thesis unfolding lag_entity_rows by auto
  next
    case False
    have "fst (ys ! i) \<notin> fst ` set (lag_entity lags ys)"
    proof
      assume "fst (ys ! i) \<in> fst ` set (lag_entity lags ys)"
      then obtain j where j: "j < length ys" "list_all (\<lambda>k. k \<le> j) lags"
        "fst (ys ! i) = fst (ys ! j)"
        unfolding lag_entity_rows by auto
      from d i j(1) j(3) have "i = j"
        by (auto simp: distinct_conv_nth)
      with False j(2) show False by simp
    qed
    with False show ?thesis by simp
  qed
qed

theorem lag_features_witness:
  "distinct (map fst [(0::int, 10::int), (1, 11), (2, 12), (3, 13)])
   \<and> (''a'', [(0, 10), (1, 11), (2, 12), (3, 13)]) \<in> set panel_ab
   \<and> lag [1, 2] panel_ab
       = [(''a'', [(2, [11, 10]), (3, [12, 11])]), (''b'', [(2, [21, 20])])]
   \<and> test_lag_expected [1, 2] panel_ab
       = [(''a'', [(2, [11, 10]), (3, [12, 11])]), (''b'', [(2, [21, 20])])]
   \<and> (0::int) \<notin> fst ` set (lag_entity [1, 2] [(0::int, 10::int), (1, 11), (2, 12), (3, 13)])
   \<and> (3::int, [12::int, 11]) \<in> set (lag_entity [1, 2] [(0, 10), (1, 11), (2, 12), (3, 13)])"
proof -
  let ?ys = "[(0::int, 10::int), (1, 11), (2, 12), (3, 13)]"
  have d: "distinct (map fst ?ys)" by simp
  have m: "(''a'', ?ys) \<in> set panel_ab" by (simp add: panel_ab_def)
  have v: "lag [1, 2] panel_ab
       = [(''a'', [(2, [11, 10]), (3, [12, 11])]), (''b'', [(2, [21, 20])])]"
    by code_simp
  from lag_features [OF d m, of "[1, 2]"]
  have eq: "lag [1, 2] panel_ab = test_lag_expected [1, 2] panel_ab"
    and rows: "\<forall>i<length ?ys.
          if list_all (\<lambda>k. k \<le> i) [1, 2]
          then (fst (?ys ! i), map (\<lambda>k. snd (?ys ! (i - k))) [1, 2]) \<in> set (lag_entity [1, 2] ?ys)
          else fst (?ys ! i) \<notin> fst ` set (lag_entity [1, 2] ?ys)"
    by blast+
  from rows [rule_format, of 0] have r0: "(0::int) \<notin> fst ` set (lag_entity [1, 2] ?ys)"
    by simp
  from rows [rule_format, of 3] have r3: "(3::int, [12::int, 11]) \<in> set (lag_entity [1, 2] ?ys)"
    by simp
  from d m v eq r0 r3 show ?thesis by simp
qed


section \<open>Rolling-window features\<close>











end
